theory Spec2Isabelle
  imports Complex_Main
begin

section \<open>The Deep CCA wrapper of \<^verbatim>\<open>cca_zoo/deep.py\<close>\<close>

text \<open>
  A shallow embedding of the class \<^verbatim>\<open>Wrapper\<close>. Python exceptions are values of
  \<open>error\<close>; a function that may raise returns \<open>error + 'a\<close> with \<open>Inl\<close> for the
  exception. The one unbounded loop of the file, the batch-size adjustment, is a
  \<^theory_text>\<open>partial_function\<close> in the option monad, where \<open>None\<close> stands for a run that
  never returns.
\<close>

datatype error =
    AttributeError
  | IndexError
  | ZeroDivisionError
  | ValueError
  | TypeError
  | UnboundLocalError
  | AssertionError

subsection \<open>Arrays\<close>

text \<open>
  A two-dimensional array of floats is the list of its rows. Array entries are modelled
  as real numbers: rounding of the floating-point operations is not represented. An array
  without rows does not record its number of columns.
\<close>

type_synonym vector = "real list"
type_synonym matrix = "real list list"

definition ncols :: "matrix \<Rightarrow> nat" where
  "ncols M = (case M of [] \<Rightarrow> 0 | r # _ \<Rightarrow> length r)"

text \<open>
  \<^verbatim>\<open>M.mean(axis=0)\<close>: the mean of every column. (On an array without rows numpy
  returns NaN entries; the model has no columns to report there.)
\<close>

definition mean_axis0 :: "matrix \<Rightarrow> vector" where
  "mean_axis0 M =
     map (\<lambda>j. sum_list (map (\<lambda>r. r ! j) M) / real (length M)) [0..<ncols M]"

text \<open>\<^verbatim>\<open>M - v\<close> with the row \<open>v\<close> broadcast over the rows of \<open>M\<close>.\<close>

definition sub_row :: "matrix \<Rightarrow> vector \<Rightarrow> matrix" where
  "sub_row M v = map (\<lambda>r. map2 (-) r v) M"

text \<open>\<^verbatim>\<open>M[inds]\<close>: the rows selected by an index array; an index past the end raises.\<close>

definition take_rows :: "matrix \<Rightarrow> nat list \<Rightarrow> error + matrix" where
  "take_rows M inds =
     (if \<forall>i \<in> set inds. i < length M then Inr (map (\<lambda>i. M ! i) inds) else Inl IndexError)"

text \<open>
  \<^verbatim>\<open>M - v\<close> and \<^verbatim>\<open>M -= v\<close> for a one-dimensional \<open>v\<close> of any length,
  under numpy's broadcasting: a \<open>v\<close> of length one is subtracted from every entry;
  otherwise \<open>v\<close> must be as long as the rows of \<open>M\<close>, except that out of place a
  one-column \<open>M\<close> is stretched to the length of \<open>v\<close>. Anything else raises. (An
  array without rows has no width in this representation, so the model accepts every
  \<open>v\<close> for it, where numpy compares \<open>v\<close> with the width the array records. The
  arrays evaluated below all have rows.)
\<close>

definition isub :: "matrix \<Rightarrow> vector \<Rightarrow> error + matrix" where
  "isub M v =
     (if length v = 1 then Inr (map (map (\<lambda>x. x - v ! 0)) M)
      else if \<forall>r \<in> set M. length r = length v then Inr (sub_row M v)
      else Inl ValueError)"

definition sub :: "matrix \<Rightarrow> vector \<Rightarrow> error + matrix" where
  "sub M v =
     (if length v = 1 then Inr (map (map (\<lambda>x. x - v ! 0)) M)
      else if \<forall>r \<in> set M. length r = length v then Inr (sub_row M v)
      else if \<forall>r \<in> set M. length r = 1 then Inr (map (\<lambda>r. map (\<lambda>y. r ! 0 - y) v) M)
      else Inl ValueError)"

text \<open>
  \<^verbatim>\<open>U / np.linalg.norm(U, axis=0, keepdims=True)\<close>: every column divided by its
  Euclidean norm. (A zero column gives NaN in numpy; the division of the model gives 0.)
\<close>

definition col_norms :: "matrix \<Rightarrow> vector" where
  "col_norms U = map (\<lambda>j. sqrt (sum_list (map (\<lambda>r. (r ! j)\<^sup>2) U))) [0..<ncols U]"

definition normalise :: "matrix \<Rightarrow> matrix" where
  "normalise U = map (\<lambda>r. map2 (/) r (col_norms U)) U"

text \<open>\<^verbatim>\<open>np.diag\<close> of a two-dimensional array: its main diagonal.\<close>

definition diag :: "matrix \<Rightarrow> vector" where
  "diag M = map (\<lambda>i. M ! i ! i) [0..<min (length M) (ncols M)]"

text \<open>\<^verbatim>\<open>F.mse_loss(a, b, reduction='sum')\<close> for arrays of one shape.\<close>

definition mse_sum :: "matrix \<Rightarrow> matrix \<Rightarrow> real" where
  "mse_sum a b = sum_list (map (\<lambda>(r, r'). sum_list (map (\<lambda>(u, v). (u - v)\<^sup>2) (zip r r'))) (zip a b))"

subsection \<open>Datasets and loaders\<close>

text \<open>
  \<^verbatim>\<open>TensorDataset(*tensors)\<close> asserts that its tensors have the same number of rows.
  \<^verbatim>\<open>DataLoader(dataset, batch_size=bs)\<close> rejects a batch size that is not positive
  and yields, in row order, batches of \<open>bs\<close> rows of every tensor, the last batch
  holding the remainder; its \<^verbatim>\<open>len\<close> is the number of batches. A batch is the list
  of its per-view arrays. (No caller below builds a dataset of no tensors.)
\<close>

definition tensor_dataset :: "matrix list \<Rightarrow> error + matrix list" where
  "tensor_dataset tensors =
     (case tensors of
        [] \<Rightarrow> Inl IndexError
      | t # ts \<Rightarrow> if \<forall>u \<in> set ts. length u = length t then Inr tensors else Inl AssertionError)"

definition data_loader :: "matrix list \<Rightarrow> int \<Rightarrow> error + matrix list list" where
  "data_loader dataset bs =
     (if bs \<le> 0 then Inl ValueError
      else Inr (let n = nat bs;
                    rows = (case dataset of [] \<Rightarrow> 0 | t # _ \<Rightarrow> length t)
                in map (\<lambda>i. map (\<lambda>t. take n (drop (i * n) t)) dataset)
                     [0..<(rows + n - 1) div n]))"

subsection \<open>The external collaborators\<close>

text \<open>
  The networks of \<^verbatim>\<open>cca_zoo.DCCAE\<close> and \<^verbatim>\<open>cca_zoo.DVCCA\<close>, \<^verbatim>\<open>sklearn\<close>'s CCA and
  \<^verbatim>\<open>np.corrcoef\<close> are not part of this file; the wrapper is parametric in them.
  \<open>'m\<close> is the whole state of a network object, \<open>'sd\<close> a copy of its parameters.
  \<^item> \<open>new_model meth d1 d2\<close>: the constructor call that \<^verbatim>\<open>fit\<close> makes for the method
    name \<open>meth\<close> and the two input widths (the other constructor arguments are fixed
    options of the wrapper);
  \<^item> \<open>state_dict\<close>, \<open>load_state_dict\<close>, \<open>to_double\<close>: \<^verbatim>\<open>model.state_dict()\<close> (copied),
    \<^verbatim>\<open>model.load_state_dict(sd)\<close> and \<^verbatim>\<open>model.double().to(device)\<close>;
  \<^item> \<open>update_weights m x y\<close>: one optimisation step in training mode, giving the new
    network state and the loss;
  \<^item> \<open>val_loss m x y\<close>: \<^verbatim>\<open>model.loss(x, y, *model(x, y))\<close> in evaluation mode without
    gradients;
  \<^item> \<open>latents m x y\<close> and \<open>recons m x y\<close>: the components \<^verbatim>\<open>z_x, z_y\<close> and
    \<^verbatim>\<open>recon_x, recon_y\<close> that the source takes from \<^verbatim>\<open>model(x, y)\<close>;
  \<^item> \<open>encode_1\<close>, \<open>encode_2\<close>: the latent code the source reads off the encoders (for
    DVCCA component 0 of their result); \<open>decode_1\<close>, \<open>decode_2\<close>: the decoders;
  \<^item> \<open>cca_fit_transform n\<close>: \<^verbatim>\<open>CCA(n_components=n).fit_transform\<close>, giving the fitted
    object and the two projections; \<open>cca_transform\<close>: \<^verbatim>\<open>cca.transform\<close>;
  \<^item> \<open>corrcoef v1 v2\<close>: \<^verbatim>\<open>np.corrcoef(v1, v2, rowvar=False)\<close>.
  They are taken as functions that return: an exception inside one of them is outside
  the model, except for the constructor.
\<close>

record ('m, 'sd, 'c) collaborators =
  new_model :: "string \<Rightarrow> nat \<Rightarrow> nat \<Rightarrow> error + 'm"
  state_dict :: "'m \<Rightarrow> 'sd"
  load_state_dict :: "'m \<Rightarrow> 'sd \<Rightarrow> 'm"
  to_double :: "'m \<Rightarrow> 'm"
  update_weights :: "'m \<Rightarrow> matrix \<Rightarrow> matrix \<Rightarrow> 'm \<times> real"
  val_loss :: "'m \<Rightarrow> matrix \<Rightarrow> matrix \<Rightarrow> real"
  latents :: "'m \<Rightarrow> matrix \<Rightarrow> matrix \<Rightarrow> matrix \<times> matrix"
  recons :: "'m \<Rightarrow> matrix \<Rightarrow> matrix \<Rightarrow> matrix \<times> matrix"
  encode_1 :: "'m \<Rightarrow> matrix \<Rightarrow> matrix"
  encode_2 :: "'m \<Rightarrow> matrix \<Rightarrow> matrix"
  decode_1 :: "'m \<Rightarrow> matrix \<Rightarrow> matrix"
  decode_2 :: "'m \<Rightarrow> matrix \<Rightarrow> matrix"
  cca_fit_transform :: "nat \<Rightarrow> matrix \<Rightarrow> matrix \<Rightarrow> 'c \<times> matrix \<times> matrix"
  cca_transform :: "'c \<Rightarrow> matrix \<Rightarrow> matrix \<Rightarrow> matrix \<times> matrix"
  corrcoef :: "matrix \<Rightarrow> matrix \<Rightarrow> matrix"

subsection \<open>The wrapper object\<close>

text \<open>
  The attributes assigned by \<^verbatim>\<open>__init__\<close> are plain fields. An attribute that only a
  later method assigns is an option: \<open>None\<close> means that the object does not have the
  attribute yet, so that reading it raises \<^verbatim>\<open>AttributeError\<close>. The options that
  \<^verbatim>\<open>__init__\<close> only forwards to the network constructor (learning rate, loss type,
  regulariser, layer sizes, architecture names) are part of the external constructor
  \<open>new_model\<close> below. \<open>'m\<close> is the state of the network object, \<open>'c\<close> the fitted
  \<^verbatim>\<open>sklearn\<close> CCA object.
\<close>

record ('m, 'c) wrapper =
  latent_dims :: int
  epoch_num :: int
  batch_size :: int
  method_name :: string
  both_encoders :: bool
  private_latents :: bool
  patience :: int
  dataset_list_train :: "matrix list option"
  dataset_list_val :: "matrix list option"
  dataset_means :: "vector list option"
  model :: "'m option"
  cca :: "'c option"
  train_correlations :: "real list option"
  X_mean :: "vector option"
  Y_mean :: "vector option"

definition init :: "int \<Rightarrow> int \<Rightarrow> int \<Rightarrow> string \<Rightarrow> bool \<Rightarrow> bool \<Rightarrow> int \<Rightarrow> ('m, 'c) wrapper" where
  "init ld en bs meth be priv pat =
     \<lparr> latent_dims = ld, epoch_num = en, batch_size = bs, method_name = meth,
       both_encoders = be, private_latents = priv, patience = pat,
       dataset_list_train = None, dataset_list_val = None, dataset_means = None,
       model = None, cca = None, train_correlations = None,
       X_mean = None, Y_mean = None \<rparr>"

subsection \<open>\<^verbatim>\<open>process_training_data\<close>\<close>

text \<open>
  \<^verbatim>\<open>int(round(0.8 * num_subjects, 0))\<close>. The fractional part of \<open>0.8 * S\<close> is one of
  0, 0.2, 0.4, 0.6 and 0.8, so no tie arises and the nearest integer is
  \<open>\<lfloor>(8 * S + 5) / 10\<rfloor>\<close>; \<open>split_point_round\<close> below relates it to \<open>round\<close>.
\<close>

definition split_point :: "nat \<Rightarrow> nat" where
  "split_point num_subjects = (8 * num_subjects + 5) div 10"

text \<open>
  \<^verbatim>\<open>np.split(all_inds, [k])\<close> is \<^verbatim>\<open>all_inds[:k], all_inds[k:]\<close>. The argument
  \<open>all_inds\<close> is the index array after \<^verbatim>\<open>np.random.shuffle\<close>: some arrangement of
  \<open>0, \<dots>, S - 1\<close>, chosen by the random generator.
\<close>

definition split_inds :: "nat list \<Rightarrow> nat \<Rightarrow> nat list \<times> nat list" where
  "split_inds all_inds num_subjects =
     (take (split_point num_subjects) all_inds, drop (split_point num_subjects) all_inds)"

definition shuffled :: "nat list \<Rightarrow> nat \<Rightarrow> bool" where
  "shuffled all_inds num_subjects \<longleftrightarrow>
     distinct all_inds \<and> set all_inds = {0..<num_subjects}"

text \<open>
  The body of \<^verbatim>\<open>for dataset in args\<close>: the three \<^verbatim>\<open>append\<close>s, in the order
  (train, validation, means) of the result.
\<close>

fun centre_datasets ::
  "matrix list \<Rightarrow> nat list \<Rightarrow> nat list \<Rightarrow> error + (matrix list \<times> matrix list \<times> vector list)" where
  "centre_datasets [] train_inds val_inds = Inr ([], [], [])"
| "centre_datasets (dataset # rest) train_inds val_inds =
     (case take_rows dataset train_inds of
        Inl e \<Rightarrow> Inl e
      | Inr dtrain \<Rightarrow>
          (case take_rows dataset val_inds of
             Inl e \<Rightarrow> Inl e
           | Inr dval \<Rightarrow>
               (case centre_datasets rest train_inds val_inds of
                  Inl e \<Rightarrow> Inl e
                | Inr (trains, vals, means) \<Rightarrow>
                    Inr (sub_row dtrain (mean_axis0 dataset) # trains,
                         sub_row dval (mean_axis0 dataset) # vals,
                         mean_axis0 dtrain # means))))"

text \<open>
  \<^verbatim>\<open>while num_subjects % self.batch_size < self.latent_dims: self.batch_size += 1\<close>.
  Python's \<^verbatim>\<open>%\<close> on integers takes the sign of the divisor, as \<open>mod\<close> on \<open>int\<close>
  does, and raises on a zero divisor.
\<close>

partial_function (option) adjust_batch_size :: "int \<Rightarrow> int \<Rightarrow> int \<Rightarrow> (error + int) option" where
  "adjust_batch_size num_subjects ld bs =
     (if bs = 0 then Some (Inl ZeroDivisionError)
      else if num_subjects mod bs < ld then adjust_batch_size num_subjects ld (bs + 1)
      else Some (Inr bs))"

definition process_training_data ::
  "('m, 'c) wrapper \<Rightarrow> matrix list \<Rightarrow> nat list \<Rightarrow> (error + ('m, 'c) wrapper) option" where
  "process_training_data self args all_inds =
     (case args of
        [] \<Rightarrow> Some (Inl IndexError)
      | a0 # _ \<Rightarrow>
          (let num_subjects = length a0;
               (train_inds, val_inds) = split_inds all_inds num_subjects
           in case centre_datasets args train_inds val_inds of
                Inl e \<Rightarrow> Some (Inl e)
              | Inr (trains, vals, means) \<Rightarrow>
                  (case adjust_batch_size (int num_subjects) (latent_dims self) (batch_size self) of
                     None \<Rightarrow> None
                   | Some (Inl e) \<Rightarrow> Some (Inl e)
                   | Some (Inr bs) \<Rightarrow>
                       Some (Inr (self\<lparr> dataset_list_train := Some trains,
                                        dataset_list_val := Some vals,
                                        dataset_means := Some means,
                                        batch_size := bs \<rparr>)))))"

subsection \<open>\<^verbatim>\<open>train_epoch\<close> and \<^verbatim>\<open>val_epoch\<close>\<close>

text \<open>
  The loops over the batches. \<^verbatim>\<open>for batch_idx, (x, y) in enumerate(loader)\<close> unpacks
  every batch into two arrays and raises when the dataset has another number of views.
\<close>

fun train_batches ::
  "('m, 'sd, 'c) collaborators \<Rightarrow> 'm \<Rightarrow> real \<Rightarrow> matrix list list \<Rightarrow> error + ('m \<times> real)" where
  "train_batches ops m train_loss [] = Inr (m, train_loss)"
| "train_batches ops m train_loss (batch # rest) =
     (case batch of
        [x, y] \<Rightarrow>
          (let (m', loss) = update_weights ops m x y
           in train_batches ops m' (train_loss + loss) rest)
      | _ \<Rightarrow> Inl ValueError)"

definition train_epoch ::
  "('m, 'sd, 'c) collaborators \<Rightarrow> 'm \<Rightarrow> matrix list list \<Rightarrow> error + ('m \<times> real)" where
  "train_epoch ops m train_dataloader =
     (case train_batches ops m 0 train_dataloader of
        Inl e \<Rightarrow> Inl e
      | Inr (m', train_loss) \<Rightarrow>
          if length train_dataloader = 0 then Inl ZeroDivisionError
          else Inr (m', train_loss / real (length train_dataloader)))"

fun val_batches ::
  "('m, 'sd, 'c) collaborators \<Rightarrow> 'm \<Rightarrow> real \<Rightarrow> matrix list list \<Rightarrow> error + real" where
  "val_batches ops m total_val_loss [] = Inr total_val_loss"
| "val_batches ops m total_val_loss (batch # rest) =
     (case batch of
        [x, y] \<Rightarrow> val_batches ops m (total_val_loss + val_loss ops m x y) rest
      | _ \<Rightarrow> Inl ValueError)"

definition val_epoch ::
  "('m, 'sd, 'c) collaborators \<Rightarrow> 'm \<Rightarrow> matrix list list \<Rightarrow> error + real" where
  "val_epoch ops m val_dataloader =
     (case val_batches ops m 0 val_dataloader of
        Inl e \<Rightarrow> Inl e
      | Inr total_val_loss \<Rightarrow>
          if length val_dataloader = 0 then Inl ZeroDivisionError
          else Inr (total_val_loss / real (length val_dataloader)))"

subsection \<open>\<^verbatim>\<open>predict_corr\<close>\<close>

text \<open>
  The first line, \<^verbatim>\<open>[arg - self.dataset_means[i] for i, arg in enumerate(args)]\<close>:
  the attribute is read once for every argument, then indexed, then subtracted.
\<close>

fun centre_args :: "vector list option \<Rightarrow> nat \<Rightarrow> matrix list \<Rightarrow> error + matrix list" where
  "centre_args means i [] = Inr []"
| "centre_args means i (arg # rest) =
     (case means of
        None \<Rightarrow> Inl AttributeError
      | Some ms \<Rightarrow>
          if length ms \<le> i then Inl IndexError
          else (case sub arg (ms ! i) of
                  Inl e \<Rightarrow> Inl e
                | Inr c \<Rightarrow>
                    (case centre_args means (i + 1) rest of
                       Inl e \<Rightarrow> Inl e
                     | Inr cs \<Rightarrow> Inr (c # cs))))"

text \<open>
  The loop that collects the latent codes. The result \<open>None\<close> is the \<^verbatim>\<open>return\<close>
  without a value of the single-encoder DVCCA branch. For a method name that is neither
  \<^verbatim>\<open>'DCCAE'\<close> nor \<^verbatim>\<open>'DVCCA'\<close> the name \<^verbatim>\<open>z_x_batch\<close> is not bound when
  \<^verbatim>\<open>np.append\<close> reads it. \<^verbatim>\<open>np.append(z, b, axis=0)\<close> is the concatenation of the
  rows (the network is taken to emit \<^verbatim>\<open>latent_dims\<close> columns).
\<close>

fun corr_batches ::
  "('m, 'sd, 'c) collaborators \<Rightarrow> ('m, 'c) wrapper \<Rightarrow> matrix list list \<Rightarrow> matrix \<Rightarrow> matrix
     \<Rightarrow> error + (matrix \<times> matrix) option" where
  "corr_batches ops self [] z_x z_y = Inr (Some (z_x, z_y))"
| "corr_batches ops self (batch # rest) z_x z_y =
     (case batch of
        [x, y] \<Rightarrow>
          if method_name self = ''DCCAE'' \<or> (method_name self = ''DVCCA'' \<and> both_encoders self)
          then (case model self of
                  None \<Rightarrow> Inl AttributeError
                | Some m \<Rightarrow>
                    (let (z_x_batch, z_y_batch) = latents ops m x y
                     in corr_batches ops self rest (z_x @ z_x_batch) (z_y @ z_y_batch)))
          else if method_name self = ''DVCCA'' then Inr None
          else Inl UnboundLocalError
      | _ \<Rightarrow> Inl ValueError)"

text \<open>
  \<^verbatim>\<open>np.diag(np.corrcoef(view_1, view_2, rowvar=False)[:latent_dims, latent_dims:])\<close>
  for a \<^verbatim>\<open>latent_dims\<close> that is not negative.
\<close>

definition correlations ::
  "('m, 'sd, 'c) collaborators \<Rightarrow> nat \<Rightarrow> matrix \<Rightarrow> matrix \<Rightarrow> real list" where
  "correlations ops ld view_1 view_2 = diag (map (drop ld) (take ld (corrcoef ops view_1 view_2)))"

text \<open>
  The method. With \<^verbatim>\<open>train=True\<close> it assigns \<^verbatim>\<open>self.cca\<close>, so the wrapper is part
  of the result. The test loader is built from \<^verbatim>\<open>self.dataset_list_train\<close>, as in the
  source; \<^verbatim>\<open>np.empty((0, latent_dims))\<close> raises on a negative dimension.
\<close>

definition predict_corr ::
  "('m, 'sd, 'c) collaborators \<Rightarrow> ('m, 'c) wrapper \<Rightarrow> matrix list \<Rightarrow> bool
     \<Rightarrow> error + (('m, 'c) wrapper \<times> real list option)" where
  "predict_corr ops self args train =
     (case centre_args (dataset_means self) 0 args of
        Inl e \<Rightarrow> Inl e
      | Inr dataset_list_test \<Rightarrow>
          (case dataset_list_train self of
             None \<Rightarrow> Inl AttributeError
           | Some trains \<Rightarrow>
               (case tensor_dataset trains of
                  Inl e \<Rightarrow> Inl e
                | Inr test_dataset \<Rightarrow>
                    (case data_loader test_dataset (batch_size self) of
                       Inl e \<Rightarrow> Inl e
                     | Inr test_dataloader \<Rightarrow>
                         if latent_dims self < 0 then Inl ValueError
                         else (case corr_batches ops self test_dataloader [] [] of
                                 Inl e \<Rightarrow> Inl e
                               | Inr None \<Rightarrow> Inr (self, None)
                               | Inr (Some (z_x, z_y)) \<Rightarrow>
                                   if train
                                   then (let (c, view_1, view_2) =
                                               cca_fit_transform ops (nat (latent_dims self)) z_x z_y
                                         in Inr (self\<lparr>cca := Some c\<rparr>,
                                                 Some (correlations ops (nat (latent_dims self)) view_1 view_2)))
                                   else (case cca self of
                                           None \<Rightarrow> Inl AttributeError
                                         | Some c \<Rightarrow>
                                             (let (view_1, view_2) = cca_transform ops c z_x z_y
                                              in Inr (self,
                                                      Some (correlations ops (nat (latent_dims self)) view_1 view_2)))))))))"

subsection \<open>\<^verbatim>\<open>fit\<close>\<close>

text \<open>
  The local variables of the epoch loop, together with the live network
  \<^verbatim>\<open>self.model\<close> that the loop trains and may overwrite.
\<close>

record ('m, 'sd) training_state =
  live_model :: 'm
  best_model :: 'sd
  min_val_loss :: real
  epochs_no_improve :: int
  early_stop :: bool
  all_train_loss :: "real list"
  all_val_loss :: "real list"

text \<open>
  The two calls at the head of an epoch: \<^verbatim>\<open>train_epoch\<close> on the live network, then
  \<^verbatim>\<open>val_epoch\<close> on the network it leaves. The result is that network with
  \<^verbatim>\<open>epoch_train_loss\<close> and \<^verbatim>\<open>epoch_val_loss\<close>.
\<close>

definition run_epoch ::
  "('m, 'sd, 'c) collaborators \<Rightarrow> 'm \<Rightarrow> matrix list list \<Rightarrow> matrix list list
     \<Rightarrow> error + ('m \<times> real \<times> real)" where
  "run_epoch ops m0 train_dataloader val_dataloader =
     (case train_epoch ops m0 train_dataloader of
        Inl e \<Rightarrow> Inl e
      | Inr (m, epoch_train_loss) \<Rightarrow>
          (case val_epoch ops m val_dataloader of
             Inl e \<Rightarrow> Inl e
           | Inr epoch_val_loss \<Rightarrow> Inr (m, epoch_train_loss, epoch_val_loss)))"

text \<open>The body of \<^verbatim>\<open>for epoch in range(self.epoch_num)\<close>; \<open>pat\<close> is \<^verbatim>\<open>self.patience\<close>.\<close>

definition epoch_body ::
  "('m, 'sd, 'c) collaborators \<Rightarrow> int \<Rightarrow> matrix list list \<Rightarrow> matrix list list
     \<Rightarrow> ('m, 'sd) training_state \<Rightarrow> error + ('m, 'sd) training_state" where
  "epoch_body ops pat train_dataloader val_dataloader s =
     (if early_stop s = False then
        (case run_epoch ops (live_model s) train_dataloader val_dataloader of
           Inl e \<Rightarrow> Inl e
         | Inr (m, epoch_train_loss, epoch_val_loss) \<Rightarrow>
             (let s' =
                (if epoch_val_loss < min_val_loss s
                 then s\<lparr> live_model := m,
                         min_val_loss := epoch_val_loss,
                         best_model := state_dict ops m,
                         epochs_no_improve := 0 \<rparr>
                 else if epochs_no_improve s + 1 = pat
                 then s\<lparr> live_model := load_state_dict ops m (best_model s),
                         epochs_no_improve := epochs_no_improve s + 1,
                         early_stop := True \<rparr>
                 else s\<lparr> live_model := m,
                         epochs_no_improve := epochs_no_improve s + 1 \<rparr>)
              in Inr (s'\<lparr> all_train_loss := all_train_loss s @ [epoch_train_loss],
                           all_val_loss := all_val_loss s @ [epoch_val_loss] \<rparr>)))
      else Inr s)"

text \<open>
  Whether the epoch that starts in the state \<open>s\<close> runs to its end with a validation loss
  below, or not below, the best one seen.
\<close>

definition improving ::
  "('m, 'sd, 'c) collaborators \<Rightarrow> matrix list list \<Rightarrow> matrix list list
     \<Rightarrow> ('m, 'sd) training_state \<Rightarrow> bool" where
  "improving ops train_dataloader val_dataloader s =
     (case run_epoch ops (live_model s) train_dataloader val_dataloader of
        Inl e \<Rightarrow> False
      | Inr (m, epoch_train_loss, epoch_val_loss) \<Rightarrow> epoch_val_loss < min_val_loss s)"

definition non_improving ::
  "('m, 'sd, 'c) collaborators \<Rightarrow> matrix list list \<Rightarrow> matrix list list
     \<Rightarrow> ('m, 'sd) training_state \<Rightarrow> bool" where
  "non_improving ops train_dataloader val_dataloader s =
     (case run_epoch ops (live_model s) train_dataloader val_dataloader of
        Inl e \<Rightarrow> False
      | Inr (m, epoch_train_loss, epoch_val_loss) \<Rightarrow> \<not> epoch_val_loss < min_val_loss s)"

text \<open>The network that the training of the epoch starting in \<open>s\<close> leaves.\<close>

definition trained ::
  "('m, 'sd, 'c) collaborators \<Rightarrow> matrix list list \<Rightarrow> matrix list list
     \<Rightarrow> ('m, 'sd) training_state \<Rightarrow> 'm option" where
  "trained ops train_dataloader val_dataloader s =
     (case run_epoch ops (live_model s) train_dataloader val_dataloader of
        Inl e \<Rightarrow> None
      | Inr (m, epoch_train_loss, epoch_val_loss) \<Rightarrow> Some m)"

text \<open>\<open>fit_loop \<dots> n s\<close> runs \<open>n\<close> iterations of the loop from the state \<open>s\<close>.\<close>

fun fit_loop ::
  "('m, 'sd, 'c) collaborators \<Rightarrow> int \<Rightarrow> matrix list list \<Rightarrow> matrix list list \<Rightarrow> nat
     \<Rightarrow> ('m, 'sd) training_state \<Rightarrow> error + ('m, 'sd) training_state" where
  "fit_loop ops pat train_dataloader val_dataloader 0 s = Inr s"
| "fit_loop ops pat train_dataloader val_dataloader (Suc n) s =
     (case epoch_body ops pat train_dataloader val_dataloader s of
        Inl e \<Rightarrow> Inl e
      | Inr s' \<Rightarrow> fit_loop ops pat train_dataloader val_dataloader n s')"

text \<open>
  The choice of the network. Another method name leaves \<^verbatim>\<open>self.model\<close> as it is, and
  the next line, \<^verbatim>\<open>self.model.parameters()\<close>, raises when the object has none.
\<close>

definition select_model ::
  "('m, 'sd, 'c) collaborators \<Rightarrow> ('m, 'c) wrapper \<Rightarrow> matrix list \<Rightarrow> error + 'm" where
  "select_model ops self trains =
     (if method_name self = ''DCCAE'' \<or> method_name self = ''DVCCA'' then
        (case trains of
           t0 # t1 # _ \<Rightarrow> new_model ops (method_name self) (ncols t0) (ncols t1)
         | _ \<Rightarrow> Inl IndexError)
      else if method_name self = ''DGCCA'' then new_model ops ''DGCCA'' 0 0
      else (case model self of None \<Rightarrow> Inl AttributeError | Some m \<Rightarrow> Inr m))"

text \<open>The state in which the epoch loop starts.\<close>

definition start_state ::
  "('m, 'sd, 'c) collaborators \<Rightarrow> ('m, 'c) wrapper \<Rightarrow> 'm \<Rightarrow> ('m, 'sd) training_state" where
  "start_state ops self m =
     \<lparr> live_model = to_double ops m,
       best_model = state_dict ops m,
       min_val_loss = real_of_int (latent_dims self),
       epochs_no_improve = 0,
       early_stop = False,
       all_train_loss = [],
       all_val_loss = [] \<rparr>"

text \<open>
  \<^verbatim>\<open>fit\<close> between \<^verbatim>\<open>process_training_data\<close> and the epoch loop: the two loaders
  and the network.
\<close>

definition fit_setup ::
  "('m, 'sd, 'c) collaborators \<Rightarrow> ('m, 'c) wrapper
     \<Rightarrow> error + (matrix list list \<times> matrix list list \<times> 'm)" where
  "fit_setup ops self =
     (case (dataset_list_train self, dataset_list_val self) of
        (Some trains, Some vals) \<Rightarrow>
          (case tensor_dataset trains of
             Inl e \<Rightarrow> Inl e
           | Inr train_dataset \<Rightarrow>
          (case data_loader train_dataset (batch_size self) of
             Inl e \<Rightarrow> Inl e
           | Inr train_dataloader \<Rightarrow>
          (case tensor_dataset vals of
             Inl e \<Rightarrow> Inl e
           | Inr val_dataset \<Rightarrow>
          (case data_loader val_dataset (batch_size self) of
             Inl e \<Rightarrow> Inl e
           | Inr val_dataloader \<Rightarrow>
          (case select_model ops self trains of
             Inl e \<Rightarrow> Inl e
           | Inr m \<Rightarrow> Inr (train_dataloader, val_dataloader, m))))))
      | _ \<Rightarrow> Inl AttributeError)"

text \<open>
  \<^verbatim>\<open>fit\<close> after \<^verbatim>\<open>process_training_data\<close>. The plot of the loss curves has no effect
  on the wrapper and is left out.
\<close>

definition fit_model ::
  "('m, 'sd, 'c) collaborators \<Rightarrow> ('m, 'c) wrapper \<Rightarrow> matrix list \<Rightarrow> error + ('m, 'c) wrapper" where
  "fit_model ops self args =
     (case fit_setup ops self of
        Inl e \<Rightarrow> Inl e
      | Inr (train_dataloader, val_dataloader, m) \<Rightarrow>
          (case fit_loop ops (patience self) train_dataloader val_dataloader
                  (nat (epoch_num self)) (start_state ops self m) of
             Inl e \<Rightarrow> Inl e
           | Inr s \<Rightarrow>
               (let self' = self\<lparr>model := Some (live_model s)\<rparr>
                in if method_name self = ''DCCAE'' \<or> (method_name self = ''DVCCA'' \<and> both_encoders self)
                   then (case predict_corr ops self' args True of
                           Inl e \<Rightarrow> Inl e
                         | Inr (self'', corrs) \<Rightarrow> Inr (self''\<lparr>train_correlations := corrs\<rparr>))
                   else Inr self')))"

text \<open>
  \<open>all_inds\<close> is the outcome of the shuffle in \<^verbatim>\<open>process_training_data\<close>; \<open>None\<close> is a
  call that does not return.
\<close>

definition fit ::
  "('m, 'sd, 'c) collaborators \<Rightarrow> ('m, 'c) wrapper \<Rightarrow> matrix list \<Rightarrow> nat list
     \<Rightarrow> (error + ('m, 'c) wrapper) option" where
  "fit ops self args all_inds =
     (case process_training_data self args all_inds of
        None \<Rightarrow> None
      | Some (Inl e) \<Rightarrow> Some (Inl e)
      | Some (Inr self') \<Rightarrow> Some (fit_model ops self' args))"

subsection \<open>\<^verbatim>\<open>transform_view\<close>, \<^verbatim>\<open>predict_view\<close> and \<^verbatim>\<open>recon_loss\<close>\<close>

text \<open>
  These methods subtract in place, so the arrays of the caller live in a store and an
  argument is the address of an array; \<^verbatim>\<open>None\<close> for an omitted view is \<open>None\<close>. Every
  function returns the store next to its result, also when it raises, since the
  assignments made before the exception stay.

  \<^verbatim>\<open>view -= self.X_mean\<close>: the attribute is read first, then the array is overwritten.
\<close>

type_synonym store = "nat \<Rightarrow> matrix"

definition isub_view :: "vector option \<Rightarrow> nat option \<Rightarrow> store \<Rightarrow> error + store" where
  "isub_view mean_attr view st =
     (case view of
        None \<Rightarrow> Inr st
      | Some a \<Rightarrow>
          (case mean_attr of
             None \<Rightarrow> Inl AttributeError
           | Some mu \<Rightarrow>
               (case isub (st a) mu of
                  Inl e \<Rightarrow> Inl e
                | Inr M \<Rightarrow> Inr (st(a := M)))))"

text \<open>
  The encoding and the \<^verbatim>\<open>return\<close>s of \<^verbatim>\<open>transform_view\<close>.
  \<^verbatim>\<open>torch.from_numpy\<close> shares the memory of the array, so the encoders read the store
  as it is after both subtractions. For another method name \<^verbatim>\<open>U_new\<close> and \<^verbatim>\<open>V_new\<close>
  are never bound; with no view supplied the function falls off its end and returns
  \<^verbatim>\<open>None\<close>, the outer \<open>None\<close> of the result.
\<close>

definition encode_views ::
  "('m, 'sd, 'c) collaborators \<Rightarrow> ('m, 'c) wrapper \<Rightarrow> nat option \<Rightarrow> nat option \<Rightarrow> store
     \<Rightarrow> error + (matrix option \<times> matrix option) option" where
  "encode_views ops self X_new Y_new st =
     (if X_new = None \<and> Y_new = None then Inr None
      else if method_name self = ''DCCAE'' \<or> method_name self = ''DVCCA'' then
        (case model self of
           None \<Rightarrow> Inl AttributeError
         | Some m \<Rightarrow>
             Inr (Some (map_option (\<lambda>a. normalise (encode_1 ops m (st a))) X_new,
                        map_option (\<lambda>a. normalise (encode_2 ops m (st a))) Y_new)))
      else Inl UnboundLocalError)"

definition transform_view ::
  "('m, 'sd, 'c) collaborators \<Rightarrow> ('m, 'c) wrapper \<Rightarrow> nat option \<Rightarrow> nat option \<Rightarrow> store
     \<Rightarrow> (error + (matrix option \<times> matrix option) option) \<times> store" where
  "transform_view ops self X_new Y_new st =
     (case isub_view (X_mean self) X_new st of
        Inl e \<Rightarrow> (Inl e, st)
      | Inr st1 \<Rightarrow>
          (case isub_view (Y_mean self) Y_new st1 of
             Inl e \<Rightarrow> (Inl e, st1)
           | Inr st2 \<Rightarrow> (encode_views ops self X_new Y_new st2, st2)))"

text \<open>
  A value that \<^verbatim>\<open>predict_view\<close> returns is a reference to an array of the caller
  (\<^verbatim>\<open>X_pred = X_new\<close>) or a new array made by a decoder.
\<close>

datatype prediction = Ref nat | Arr matrix

text \<open>
  Unpacking the \<^verbatim>\<open>None\<close> that \<^verbatim>\<open>transform_view\<close> returns when no view is supplied
  raises \<^verbatim>\<open>TypeError\<close>. The two \<^verbatim>\<open>if\<close>s run in order, so with both views supplied
  the second one overwrites what the first assigned.
\<close>

definition predict_view ::
  "('m, 'sd, 'c) collaborators \<Rightarrow> ('m, 'c) wrapper \<Rightarrow> nat option \<Rightarrow> nat option \<Rightarrow> store
     \<Rightarrow> (error + (prediction \<times> prediction)) \<times> store" where
  "predict_view ops self X_new Y_new st =
     (case transform_view ops self X_new Y_new st of
        (Inl e, st') \<Rightarrow> (Inl e, st')
      | (Inr None, st') \<Rightarrow> (Inl TypeError, st')
      | (Inr (Some (U_new, V_new)), st') \<Rightarrow>
          (if method_name self = ''DCCAE'' \<or> method_name self = ''DVCCA'' then
             (case model self of
                None \<Rightarrow> (Inl AttributeError, st')
              | Some m \<Rightarrow>
                  (case (U_new, X_new, V_new, Y_new) of
                     (_, _, Some v, Some b) \<Rightarrow> (Inr (Arr (decode_1 ops m v), Ref b), st')
                   | (Some u, Some a, None, _) \<Rightarrow> (Inr (Ref a, Arr (decode_2 ops m u)), st')
                   | _ \<Rightarrow> (Inl UnboundLocalError, st')))
           else (Inl UnboundLocalError, st')))"

text \<open>
  The loop of \<^verbatim>\<open>recon_loss\<close>. The reconstructions are bound for \<^verbatim>\<open>'DCCAE'\<close>,
  \<^verbatim>\<open>'DGCCAE'\<close> and \<^verbatim>\<open>'DVCCA'\<close> only.
\<close>

fun recon_batches ::
  "('m, 'sd, 'c) collaborators \<Rightarrow> ('m, 'c) wrapper \<Rightarrow> matrix list list \<Rightarrow> real \<Rightarrow> real
     \<Rightarrow> error + (real \<times> real)" where
  "recon_batches ops self [] recon_loss_x recon_loss_y = Inr (recon_loss_x, recon_loss_y)"
| "recon_batches ops self (batch # rest) recon_loss_x recon_loss_y =
     (case batch of
        [x, y] \<Rightarrow>
          if method_name self = ''DCCAE'' \<or> method_name self = ''DGCCAE'' \<or> method_name self = ''DVCCA''
          then (case model self of
                  None \<Rightarrow> Inl AttributeError
                | Some m \<Rightarrow>
                    (let (recon_x, recon_y) = recons ops m x y
                     in recon_batches ops self rest
                          (recon_loss_x + mse_sum recon_x x / real (length x))
                          (recon_loss_y + mse_sum recon_y y / real (length y))))
          else Inl UnboundLocalError
      | _ \<Rightarrow> Inl ValueError)"

text \<open>
  \<^verbatim>\<open>torch.tensor\<close> copies the two arrays after the subtraction; the loader has batches
  of 100 rows.
\<close>

definition recon_loss ::
  "('m, 'sd, 'c) collaborators \<Rightarrow> ('m, 'c) wrapper \<Rightarrow> nat \<Rightarrow> nat \<Rightarrow> store
     \<Rightarrow> (error + (real \<times> real)) \<times> store" where
  "recon_loss ops self X_new Y_new st =
     (case isub_view (X_mean self) (Some X_new) st of
        Inl e \<Rightarrow> (Inl e, st)
      | Inr st1 \<Rightarrow>
          (case isub_view (Y_mean self) (Some Y_new) st1 of
             Inl e \<Rightarrow> (Inl e, st1)
           | Inr st2 \<Rightarrow>
               (case tensor_dataset [st2 X_new, st2 Y_new] of
                  Inl e \<Rightarrow> (Inl e, st2)
                | Inr test_dataset \<Rightarrow>
                    (case data_loader test_dataset 100 of
                       Inl e \<Rightarrow> (Inl e, st2)
                     | Inr test_dataloader \<Rightarrow> (recon_batches ops self test_dataloader 0 0, st2)))))"

subsection \<open>A stand-in for the collaborators\<close>

text \<open>Two views of five rows and one column, used as a concrete input.\<close>

definition example_views :: "matrix list" where
  "example_views = [[[0], [0], [0], [0], [10]], [[1], [1], [1], [1], [6]]]"


text \<open>
  A small instance of the collaborators, used to run the wrapper on concrete inputs. The
  state of its network counts the optimisation steps made; the validation loss of a
  batch is that count, so it grows with every epoch; encoders, decoders and the CCA
  object return their input, and the correlation table is empty.
\<close>

definition counting_ops :: "(nat, nat, unit) collaborators" where
  "counting_ops =
     \<lparr> new_model = (\<lambda>meth d1 d2. Inr 0),
       state_dict = (\<lambda>m. m),
       load_state_dict = (\<lambda>m sd. sd),
       to_double = (\<lambda>m. m),
       update_weights = (\<lambda>m x y. (m + 1, 1)),
       val_loss = (\<lambda>m x y. real m),
       latents = (\<lambda>m x y. (x, y)),
       recons = (\<lambda>m x y. (x, y)),
       encode_1 = (\<lambda>m x. x),
       encode_2 = (\<lambda>m y. y),
       decode_1 = (\<lambda>m z. z),
       decode_2 = (\<lambda>m z. z),
       cca_fit_transform = (\<lambda>n z_x z_y. ((), z_x, z_y)),
       cca_transform = (\<lambda>c z_x z_y. (z_x, z_y)),
       corrcoef = (\<lambda>v1 v2. []) \<rparr>"

text \<open>
  A wrapper for these views, with two latent dimensions, three epochs, the batch size 16
  and the patience 10, as \<^verbatim>\<open>__init__\<close> makes it; the state that
  \<^verbatim>\<open>process_training_data\<close> leaves when the shuffle returns the indices in their
  order (\<open>example_processed_eq\<close> below); and the state that \<^verbatim>\<open>fit\<close> then leaves
  with the stand-in network, for a method that fits the alignment and for one that does
  not (\<open>example_fit\<close> and \<open>example_fit_single\<close> below).
\<close>

definition example_wrapper :: "string \<Rightarrow> bool \<Rightarrow> (nat, unit) wrapper" where
  "example_wrapper meth be = init 2 3 16 meth be False 10"

definition example_processed :: "string \<Rightarrow> bool \<Rightarrow> (nat, unit) wrapper" where
  "example_processed meth be =
     (example_wrapper meth be)
       \<lparr> dataset_list_train := Some [[[-2], [-2], [-2], [-2]], [[-1], [-1], [-1], [-1]]],
         dataset_list_val := Some [[[8]], [[4]]],
         dataset_means := Some [[0], [1]] \<rparr>"

definition example_fitted :: "(nat, unit) wrapper" where
  "example_fitted =
     (example_processed ''DCCAE'' True)
       \<lparr> model := Some 3, cca := Some (), train_correlations := Some [] \<rparr>"

definition example_fitted_single :: "(nat, unit) wrapper" where
  "example_fitted_single = (example_processed ''DVCCA'' False) \<lparr> model := Some 3 \<rparr>"

section \<open>Properties\<close>

subsection \<open>The split\<close>

lemma split_point_round: "int (split_point S) = round (0.8 * real S)"
proof -
  have "round (0.8 * real S) = \<lfloor>real (8 * S + 5) / real 10\<rfloor>"
    by (simp add: round_def field_simps)
  also have "\<dots> = int ((8 * S + 5) div 10)"
    by (simp only: floor_divide_of_nat_eq)
  finally show ?thesis by (simp add: split_point_def)
qed

lemma split_point_le: "split_point S \<le> S"
  by (simp add: split_point_def)

subsection \<open>The batch-size loop\<close>

lemma adjust_stop:
  "bs \<noteq> 0 \<Longrightarrow> ld \<le> S mod bs \<Longrightarrow> adjust_batch_size S ld bs = Some (Inr bs)"
  by (subst adjust_batch_size.simps) simp

lemma adjust_next:
  "bs \<noteq> 0 \<Longrightarrow> S mod bs < ld \<Longrightarrow> adjust_batch_size S ld bs = adjust_batch_size S ld (bs + 1)"
  by (subst adjust_batch_size.simps) simp

lemma adjust_zero: "adjust_batch_size S ld 0 = Some (Inl ZeroDivisionError)"
  by (subst adjust_batch_size.simps) simp

lemma adjust_reaches:
  "0 < bs \<Longrightarrow> ld \<le> S mod (bs + int k) \<Longrightarrow> (\<forall>j<k. S mod (bs + int j) < ld)
   \<Longrightarrow> adjust_batch_size S ld bs = Some (Inr (bs + int k))"
proof (induction k arbitrary: bs)
  case 0
  then show ?case by (simp add: adjust_stop)
next
  case (Suc k)
  have lt: "S mod bs < ld" using Suc.prems(3) [rule_format, of 0] by simp
  have "adjust_batch_size S ld (bs + 1) = Some (Inr ((bs + 1) + int k))"
  proof (rule Suc.IH)
    show "0 < bs + 1" using Suc.prems(1) by simp
    show "ld \<le> S mod (bs + 1 + int k)" using Suc.prems(2) by (simp add: algebra_simps)
    show "\<forall>j<k. S mod (bs + 1 + int j) < ld"
    proof (intro allI impI)
      fix j assume "j < k"
      then have "Suc j < Suc k" by simp
      from Suc.prems(3) [rule_format, OF this] have "S mod (bs + int (Suc j)) < ld" .
      then show "S mod (bs + 1 + int j) < ld" by (simp add: algebra_simps)
    qed
  qed
  with lt Suc.prems(1) show ?case by (simp add: adjust_next algebra_simps)
qed

lemma adjust_result:
  assumes "adjust_batch_size S ld bs = Some r"
  shows "\<forall>b. r = Inr b \<longrightarrow> ld \<le> S mod b \<and> bs \<le> b"
proof (rule adjust_batch_size.raw_induct
    [where P = "\<lambda>S ld bs r. \<forall>b. r = Inr b \<longrightarrow> ld \<le> S mod b \<and> bs \<le> b"])
  show "adjust_batch_size S ld bs = Some r" by (rule assms)
next
  fix f :: "int \<Rightarrow> int \<Rightarrow> int \<Rightarrow> (error + int) option" and S ld bs r
  assume IH: "\<And>S ld bs r. f S ld bs = Some r \<Longrightarrow> \<forall>b. r = Inr b \<longrightarrow> ld \<le> S mod b \<and> bs \<le> b"
    and step: "(if bs = 0 then Some (Inl ZeroDivisionError)
      else if S mod bs < ld then f S ld (bs + 1) else Some (Inr bs)) = Some r"
  show "\<forall>b. r = Inr b \<longrightarrow> ld \<le> S mod b \<and> bs \<le> b"
  proof (cases "bs = 0")
    case True with step show ?thesis by auto
  next
    case False
    show ?thesis
    proof (cases "S mod bs < ld")
      case True
      with False step have "f S ld (bs + 1) = Some r" by simp
      from IH [OF this] show ?thesis by auto
    next
      case F2: False
      with False step show ?thesis by auto
    qed
  qed
qed

lemma adjust_diverges:
  assumes "adjust_batch_size S ld bs = Some r"
  shows "\<not> (0 < bs \<and> (\<forall>k. S mod (bs + int k) < ld))"
proof (rule adjust_batch_size.raw_induct
    [where P = "\<lambda>S ld bs r. \<not> (0 < bs \<and> (\<forall>k. S mod (bs + int k) < ld))"])
  show "adjust_batch_size S ld bs = Some r" by (rule assms)
next
  fix f :: "int \<Rightarrow> int \<Rightarrow> int \<Rightarrow> (error + int) option" and S ld bs r
  assume IH: "\<And>S ld bs r. f S ld bs = Some r \<Longrightarrow> \<not> (0 < bs \<and> (\<forall>k. S mod (bs + int k) < ld))"
    and step: "(if bs = 0 then Some (Inl ZeroDivisionError)
      else if S mod bs < ld then f S ld (bs + 1) else Some (Inr bs)) = Some r"
  show "\<not> (0 < bs \<and> (\<forall>k. S mod (bs + int k) < ld))"
  proof
    assume a: "0 < bs \<and> (\<forall>k. S mod (bs + int k) < ld)"
    then have "S mod (bs + int 0) < ld" by blast
    then have "S mod bs < ld" by simp
    with a step have "f S ld (bs + 1) = Some r" by simp
    from IH [OF this] have "\<not> (0 < bs + 1 \<and> (\<forall>k. S mod (bs + 1 + int k) < ld))" .
    moreover have "0 < bs + 1" using a by simp
    moreover have "\<forall>k. S mod (bs + 1 + int k) < ld"
    proof
      fix k
      from a have "S mod (bs + int (Suc k)) < ld" by blast
      then show "S mod (bs + 1 + int k) < ld" by (simp add: algebra_simps)
    qed
    ultimately show False by blast
  qed
qed

lemma adjust_never_returns:
  "0 < bs \<Longrightarrow> \<forall>k. S mod (bs + int k) < ld \<Longrightarrow> adjust_batch_size S ld bs = None"
  using adjust_diverges [of S ld bs] by (cases "adjust_batch_size S ld bs") auto


lemma adjust_5_2_16: "adjust_batch_size 5 2 16 = Some (Inr 16)"
  by (rule adjust_stop) simp_all

lemma adjust_5_2_2: "adjust_batch_size 5 2 2 = Some (Inr 3)"
proof -
  have "adjust_batch_size 5 2 2 = adjust_batch_size 5 2 (2 + 1)" by (rule adjust_next) simp_all
  also have "\<dots> = Some (Inr 3)" using adjust_stop [of 3 2 5] by simp
  finally show ?thesis .
qed

lemma adjust_batch_size_returns:
  assumes "0 < bs" "0 \<le> S" "ld \<le> S"
  shows "\<exists>b. adjust_batch_size S ld bs = Some (Inr b)"
proof -
  have ex: "\<exists>k. ld \<le> S mod (bs + int k)"
  proof
    have "S mod (bs + int (nat (S + 1))) = S" using assms by (intro mod_pos_pos_trivial) simp_all
    then show "ld \<le> S mod (bs + int (nat (S + 1)))" using assms by simp
  qed
  define k where "k = (LEAST k. ld \<le> S mod (bs + int k))"
  have "ld \<le> S mod (bs + int k)" unfolding k_def using ex by (rule LeastI_ex)
  moreover have "\<forall>j<k. S mod (bs + int j) < ld"
    unfolding k_def using not_less_Least by (metis not_le)
  ultimately show ?thesis using adjust_reaches [OF assms(1)] by blast
qed


subsection \<open>Claims about \<^verbatim>\<open>process_training_data\<close>\<close>

text \<open>
  Claim C1. The claim: the mean used for centring is computed from the training rows only,
  and that mean is subtracted from the training rows and from the validation rows of the
  view. The code stores the mean of the training rows in \<^verbatim>\<open>dataset_means\<close> but subtracts
  \<^verbatim>\<open>dataset.mean(axis=0)\<close>, the mean over all rows, validation rows included. For a view
  with the rows 0, 0, 0, 0, 10 and the identity arrangement the training rows are the first
  four, their mean is 0, and the validation row becomes 10 - 2 = 8 and not 10 - 0 = 10.
\<close>

theorem validation_centred_with_overall_mean:
  "map_option (map_sum id (\<lambda>w. (dataset_means w, dataset_list_train w, dataset_list_val w)))
     (process_training_data (init 2 1 16 ''DCCAE'' True False 10 :: (unit, unit) wrapper)
        [[[0], [0], [0], [0], [10]], [[1], [1], [1], [1], [6]]] [0, 1, 2, 3, 4])
   = Some (Inr (Some [[0], [1]],
                Some [[[-2], [-2], [-2], [-2]], [[-1], [-1], [-1], [-1]]],
                Some [[[8]], [[4]]]))"
  by (simp add: process_training_data_def init_def split_inds_def split_point_def
        take_rows_def sub_row_def mean_axis0_def ncols_def adjust_5_2_16)

text \<open>
  Claim C5, as stated: the loop starts at the configured batch size and adds one until
  \<open>S mod batch_size \<ge> latent_dims\<close>, and reports a configuration error when no batch size
  satisfies the condition. The loop has no guard: with one sample, two latent dimensions
  and the batch size 16 the remainder is 1 for every batch size from 16 on, and the call
  never returns; no error is reported.
\<close>

theorem batch_size_loop_never_returns:
  "process_training_data (init 2 1 16 ''DCCAE'' True False 10 :: (unit, unit) wrapper) [[[0]], [[0]]] [0] = None"
proof -
  have "adjust_batch_size 1 2 16 = None"
  proof (rule adjust_never_returns)
    show "\<forall>k. (1::int) mod (16 + int k) < 2"
    proof
      fix k
      have "(1::int) mod (16 + int k) = 1" by (rule mod_pos_pos_trivial) simp_all
      then show "(1::int) mod (16 + int k) < 2" by simp
    qed
  qed simp
  then show ?thesis
    by (simp add: process_training_data_def init_def split_inds_def split_point_def
        take_rows_def sub_row_def mean_axis0_def ncols_def)
qed


text \<open>
  Claim C5, amended: from a positive configured batch size the loop returns the first
  batch size, counting up by one from the configured one, with
  \<open>S mod batch_size \<ge> latent_dims\<close>; when there is none it does not return.
\<close>

theorem batch_size_loop:
  assumes "0 < bs"
  shows "adjust_batch_size S ld bs =
           (if \<exists>k. ld \<le> S mod (bs + int k)
            then Some (Inr (bs + int (LEAST k. ld \<le> S mod (bs + int k))))
            else None)"
proof (cases "\<exists>k. ld \<le> S mod (bs + int k)")
  case True
  define k where "k = (LEAST k. ld \<le> S mod (bs + int k))"
  have "ld \<le> S mod (bs + int k)" unfolding k_def using True by (rule LeastI_ex)
  moreover have "\<forall>j<k. S mod (bs + int j) < ld"
    unfolding k_def using not_less_Least by (metis not_le)
  ultimately have "adjust_batch_size S ld bs = Some (Inr (bs + int k))"
    using adjust_reaches [OF assms] by blast
  with True show ?thesis by (simp add: k_def)
next
  case False
  then have "\<forall>k. S mod (bs + int k) < ld" by (simp add: not_le)
  with assms have "adjust_batch_size S ld bs = None" by (rule adjust_never_returns)
  with False show ?thesis by simp
qed


theorem batch_size_loop_witness:
  "(0::int) < 25 \<and> adjust_batch_size 100 2 25 = Some (Inr 26)"
proof -
  have l: "(LEAST k. (2::int) \<le> 100 mod (25 + int k)) = 1"
  proof (rule Least_equality)
    show "(2::int) \<le> 100 mod (25 + int 1)" by simp
    fix y assume a: "(2::int) \<le> 100 mod (25 + int y)"
    show "1 \<le> y"
    proof (rule ccontr)
      assume "\<not> 1 \<le> y"
      then have "y = 0" by simp
      with a show False by simp
    qed
  qed
  have e: "\<exists>k. (2::int) \<le> 100 mod (25 + int k)"
  proof
    show "(2::int) \<le> 100 mod (25 + int 1)" by simp
  qed
  have "(0::int) < 25" by simp
  from batch_size_loop [OF this, where S = 100 and ld = 2] e l show ?thesis by simp
qed


text \<open>
  Claim C6: whenever \<^verbatim>\<open>process_training_data\<close> returns, the batch size it leaves in the
  wrapper satisfies \<open>S mod batch_size \<ge> latent_dims\<close>, where \<open>S\<close> is the number of rows of
  the first view, and is not smaller than the configured batch size.
\<close>

theorem effective_batch_size:
  assumes "process_training_data self (a0 # rest) all_inds = Some (Inr self')"
  shows "latent_dims self \<le> int (length a0) mod batch_size self' \<and> batch_size self \<le> batch_size self'"
proof -
  from assms obtain bs where
    a: "adjust_batch_size (int (length a0)) (latent_dims self) (batch_size self) = Some (Inr bs)"
    and b: "batch_size self' = bs"
    by (auto simp: process_training_data_def Let_def split: sum.splits option.splits prod.splits)
  from adjust_result [OF a] b show ?thesis by simp
qed


theorem effective_batch_size_witness:
  "process_training_data (init 2 1 2 ''DCCAE'' True False 10 :: (unit, unit) wrapper)
     ([[0], [0], [0], [0], [10]] # [[[1], [1], [1], [1], [6]]]) [0, 1, 2, 3, 4]
   = Some (Inr ((init 2 1 2 ''DCCAE'' True False 10)
        \<lparr> dataset_list_train := Some [[[-2], [-2], [-2], [-2]], [[-1], [-1], [-1], [-1]]],
          dataset_list_val := Some [[[8]], [[4]]],
          dataset_means := Some [[0], [1]],
          batch_size := 3 \<rparr>)) \<and>
   (2::int) \<le> 5 mod 3 \<and> (2::int) \<le> 3"
proof -
  have h: "process_training_data (init 2 1 2 ''DCCAE'' True False 10 :: (unit, unit) wrapper)
     ([[0], [0], [0], [0], [10]] # [[[1], [1], [1], [1], [6]]]) [0, 1, 2, 3, 4]
   = Some (Inr ((init 2 1 2 ''DCCAE'' True False 10)
        \<lparr> dataset_list_train := Some [[[-2], [-2], [-2], [-2]], [[-1], [-1], [-1], [-1]]],
          dataset_list_val := Some [[[8]], [[4]]],
          dataset_means := Some [[0], [1]],
          batch_size := 3 \<rparr>))"
    by (simp add: process_training_data_def init_def split_inds_def split_point_def
        take_rows_def sub_row_def mean_axis0_def ncols_def adjust_5_2_2)
  from effective_batch_size [OF h] h show ?thesis by (simp add: init_def)
qed

text \<open>
  Claim C7: the shuffled index sequence, an arrangement of \<open>0, \<dots>, S - 1\<close>, is cut at
  \<open>round (0.8 * S)\<close>; the first segment is the training part and the rest the validation
  part; the two parts are disjoint, together they are all row indices, and their sizes
  add up to \<open>S\<close>. (That the arrangement is drawn uniformly is a property of the random
  generator and not of this function.)
\<close>

theorem train_val_partition:
  assumes "shuffled all_inds S" and "split_inds all_inds S = (train_inds, val_inds)"
  shows "train_inds = take (nat (round (0.8 * real S))) all_inds \<and>
         val_inds = drop (nat (round (0.8 * real S))) all_inds \<and>
         set train_inds \<inter> set val_inds = {} \<and>
         set train_inds \<union> set val_inds = {0..<S} \<and>
         length train_inds + length val_inds = S"
proof -
  have k: "nat (round (0.8 * real S)) = split_point S"
    using split_point_round [of S] by simp
  have tv: "train_inds = take (split_point S) all_inds" "val_inds = drop (split_point S) all_inds"
    using assms(2) by (simp_all add: split_inds_def)
  have d: "distinct all_inds" and s: "set all_inds = {0..<S}"
    using assms(1) by (simp_all add: shuffled_def)
  have app: "train_inds @ val_inds = all_inds" by (simp add: tv)
  have "distinct (train_inds @ val_inds)" using d app by simp
  then have disj: "set train_inds \<inter> set val_inds = {}" by simp
  have un: "set train_inds \<union> set val_inds = {0..<S}"
    using s app by (metis set_append)
  have "length all_inds = card (set all_inds)" using d by (simp add: distinct_card)
  then have "length all_inds = S" using s by simp
  then have len: "length train_inds + length val_inds = S" using app by (metis length_append)
  show ?thesis using k tv disj un len by simp
qed


theorem train_val_partition_witness:
  "shuffled [3, 0, 4, 1, 2] 5 \<and> split_inds [3, 0, 4, 1, 2] 5 = ([3, 0, 4, 1], [2]) \<and>
   set [3, 0, 4, 1::nat] \<inter> set [2] = {} \<and> set [3, 0, 4, 1::nat] \<union> set [2] = {0..<5} \<and>
   length [3, 0, 4, 1::nat] + length [2::nat] = 5"
proof -
  have a: "shuffled [3, 0, 4, 1, 2] 5" by (auto simp: shuffled_def)
  have b: "split_inds [3, 0, 4, 1, 2] 5 = ([3, 0, 4, 1], [2])"
    by (simp add: split_inds_def split_point_def)
  from train_val_partition [OF a b] a b show ?thesis by simp
qed

subsection \<open>The epoch loop\<close>

lemma fit_loop_stopped:
  "early_stop s \<Longrightarrow> fit_loop ops pat tdl vdl n s = Inr s"
  by (induction n) (simp_all add: epoch_body_def)

lemma fit_loop_Suc_end:
  "fit_loop ops pat tdl vdl (Suc n) s =
     (case fit_loop ops pat tdl vdl n s of
        Inl e \<Rightarrow> Inl e
      | Inr s' \<Rightarrow> epoch_body ops pat tdl vdl s')"
proof (induction n arbitrary: s)
  case 0
  show ?case by (simp split: sum.splits)
next
  case (Suc n)
  show ?case
  proof (cases "epoch_body ops pat tdl vdl s")
    case (Inl e)
    then show ?thesis by simp
  next
    case (Inr s1)
    have "fit_loop ops pat tdl vdl (Suc (Suc n)) s = fit_loop ops pat tdl vdl (Suc n) s1"
      using Inr by simp
    also have "\<dots> = (case fit_loop ops pat tdl vdl n s1 of
        Inl e \<Rightarrow> Inl e | Inr s' \<Rightarrow> epoch_body ops pat tdl vdl s')"
      by (rule Suc.IH)
    also have "fit_loop ops pat tdl vdl n s1 = fit_loop ops pat tdl vdl (Suc n) s"
      using Inr by simp
    finally show ?thesis .
  qed
qed

lemma fit_loop_add:
  "fit_loop ops pat tdl vdl n s = Inr s' \<Longrightarrow>
   fit_loop ops pat tdl vdl (n + k) s = fit_loop ops pat tdl vdl k s'"
proof (induction n arbitrary: s)
  case 0
  then show ?case by simp
next
  case (Suc n)
  then show ?case by (cases "epoch_body ops pat tdl vdl s") simp_all
qed

lemma epoch_body_improving:
  assumes "early_stop s = False" and "improving ops tdl vdl s"
  shows "\<exists>s'. epoch_body ops pat tdl vdl s = Inr s' \<and> early_stop s' = False \<and>
           epochs_no_improve s' = 0 \<and> trained ops tdl vdl s = Some (live_model s') \<and>
           best_model s' = state_dict ops (live_model s') \<and>
           length (all_train_loss s') = Suc (length (all_train_loss s))"
  using assms
  by (auto simp: epoch_body_def improving_def trained_def Let_def split: sum.splits prod.splits)

lemma epoch_body_non_improving:
  assumes "early_stop s = False" and "non_improving ops tdl vdl s"
  shows "\<exists>s' m. epoch_body ops pat tdl vdl s = Inr s' \<and>
           trained ops tdl vdl s = Some m \<and>
           early_stop s' = (epochs_no_improve s + 1 = pat) \<and>
           epochs_no_improve s' = epochs_no_improve s + 1 \<and>
           best_model s' = best_model s \<and> min_val_loss s' = min_val_loss s \<and>
           live_model s' = (if epochs_no_improve s + 1 = pat
                            then load_state_dict ops m (best_model s) else m) \<and>
           length (all_train_loss s') = Suc (length (all_train_loss s))"
  using assms
  by (auto simp: epoch_body_def non_improving_def trained_def Let_def split: sum.splits prod.splits)

lemma non_improving_run:
  assumes pat: "0 < pat"
    and s1: "fit_loop ops pat tdl vdl (e + 1) s0 = Inr s1" "early_stop s1 = False"
      "epochs_no_improve s1 = 0"
    and non: "\<forall>k\<in>{1..nat pat}. \<exists>s'. fit_loop ops pat tdl vdl (e + k) s0 = Inr s' \<and>
                non_improving ops tdl vdl s'"
  shows "j < nat pat \<Longrightarrow>
         \<exists>sj. fit_loop ops pat tdl vdl (e + 1 + j) s0 = Inr sj \<and> epochs_no_improve sj = int j \<and>
              best_model sj = best_model s1 \<and> early_stop sj = False"
proof (induction j)
  case 0
  show ?case using s1 by simp
next
  case (Suc j)
  then obtain sj where sj: "fit_loop ops pat tdl vdl (e + 1 + j) s0 = Inr sj"
      "epochs_no_improve sj = int j" "best_model sj = best_model s1" "early_stop sj = False"
    by auto
  have "Suc j \<in> {1..nat pat}" using Suc.prems by simp
  with non obtain s' where "fit_loop ops pat tdl vdl (e + Suc j) s0 = Inr s'"
      "non_improving ops tdl vdl s'" by blast
  with sj(1) have ni: "non_improving ops tdl vdl sj" by simp
  from epoch_body_non_improving [OF sj(4) ni, of pat] obtain s'' where
    b: "epoch_body ops pat tdl vdl sj = Inr s''"
      "early_stop s'' = (epochs_no_improve sj + 1 = pat)"
      "epochs_no_improve s'' = epochs_no_improve sj + 1"
      "best_model s'' = best_model sj"
    by blast
  have "fit_loop ops pat tdl vdl (Suc (e + 1 + j)) s0 = Inr s''"
    by (simp only: fit_loop_Suc_end [of ops pat tdl vdl "e + 1 + j" s0] sj(1) sum.case b(1))
  moreover have "early_stop s'' = False" using b(2) sj(2) Suc.prems by auto
  ultimately show ?case using b sj by auto
qed

lemma live_model_of_last_epoch:
  assumes "fit_loop ops pat tdl vdl (Suc n) s0 = Inr sf" and "early_stop sf = False"
  shows "\<exists>s. fit_loop ops pat tdl vdl n s0 = Inr s \<and> early_stop s = False \<and>
             trained ops tdl vdl s = Some (live_model sf)"
proof -
  from assms(1) obtain s where s: "fit_loop ops pat tdl vdl n s0 = Inr s"
      "epoch_body ops pat tdl vdl s = Inr sf"
    by (subst (asm) fit_loop_Suc_end) (auto split: sum.splits simp del: fit_loop.simps)
  have ns: "early_stop s = False"
  proof (rule ccontr)
    assume "early_stop s \<noteq> False"
    with s(2) have "sf = s" by (simp add: epoch_body_def)
    with assms(2) \<open>early_stop s \<noteq> False\<close> show False by simp
  qed
  with s(2) assms(2) have "trained ops tdl vdl s = Some (live_model sf)"
    by (auto simp: epoch_body_def trained_def Let_def split: sum.splits prod.splits if_splits)
  with s(1) ns show ?thesis by blast
qed

lemma predict_corr_frame:
  assumes "predict_corr ops self args train = Inr (self', r)"
  shows "model self' = model self \<and> X_mean self' = X_mean self \<and> Y_mean self' = Y_mean self \<and>
         dataset_means self' = dataset_means self \<and>
         dataset_list_train self' = dataset_list_train self"
  using assms
  by (auto simp: predict_corr_def Let_def split: sum.splits option.splits if_splits prod.splits)

lemma fit_model_live_model:
  assumes "fit_setup ops self = Inr (tdl, vdl, m0)"
    and "fit_loop ops (patience self) tdl vdl (nat (epoch_num self)) (start_state ops self m0) = Inr sf"
    and "fit_model ops self args = Inr self'"
  shows "model self' = Some (live_model sf)"
proof (cases "method_name self = ''DCCAE'' \<or> (method_name self = ''DVCCA'' \<and> both_encoders self)")
  case True
  with assms obtain self'' corrs where
    p: "predict_corr ops (self\<lparr>model := Some (live_model sf)\<rparr>) args True = Inr (self'', corrs)"
    and e: "self' = self''\<lparr>train_correlations := corrs\<rparr>"
    by (auto simp: fit_model_def Let_def split: sum.splits prod.splits)
  from predict_corr_frame [OF p] e show ?thesis by simp
next
  case False
  with assms show ?thesis by (auto simp: fit_model_def Let_def split: sum.splits)
qed


subsection \<open>The example run\<close>

lemmas run_defs = epoch_body_def run_epoch_def train_epoch_def val_epoch_def counting_ops_def
  start_state_def init_def improving_def non_improving_def trained_def Let_def

lemmas data_defs = process_training_data_def split_inds_def split_point_def
  take_rows_def sub_row_def mean_axis0_def ncols_def example_views_def

lemma example_processed_eq:
  "process_training_data (example_wrapper meth be) example_views [0, 1, 2, 3, 4]
   = Some (Inr (example_processed meth be))"
  by (simp add: data_defs example_processed_def example_wrapper_def init_def adjust_5_2_16)

lemma example_setup:
  "meth = ''DCCAE'' \<or> meth = ''DVCCA'' \<Longrightarrow>
   fit_setup counting_ops (example_processed meth be) =
     Inr ([[[[-2], [-2], [-2], [-2]], [[-1], [-1], [-1], [-1]]]], [[[[8]], [[4]]]], 0)"
  by (auto simp: fit_setup_def example_processed_def example_wrapper_def init_def tensor_dataset_def
      data_loader_def select_model_def counting_ops_def ncols_def Let_def)

lemma example_loop:
  "fit_loop counting_ops 10 [[[[-2], [-2], [-2], [-2]], [[-1], [-1], [-1], [-1]]]] [[[[8]], [[4]]]] (Suc 2)
     (start_state counting_ops (example_processed meth be) 0) =
   Inr \<lparr>live_model = 3, best_model = 1, min_val_loss = 1, epochs_no_improve = 2,
        early_stop = False, all_train_loss = [1, 1, 1], all_val_loss = [1, 2, 3]\<rparr>"
  by (simp add: run_defs example_processed_def example_wrapper_def numeral_2_eq_2)

lemma example_loop_nat:
  "fit_loop counting_ops 10 [[[[-2], [-2], [-2], [-2]], [[-1], [-1], [-1], [-1]]]] [[[[8]], [[4]]]] (nat 3)
     (start_state counting_ops (example_processed meth be) 0) =
   Inr \<lparr>live_model = 3, best_model = 1, min_val_loss = 1, epochs_no_improve = 2,
        early_stop = False, all_train_loss = [1, 1, 1], all_val_loss = [1, 2, 3]\<rparr>"
  using example_loop [of meth be] by (simp add: numeral_3_eq_3 numeral_2_eq_2 del: fit_loop.simps)

lemma example_predict_train:
  "predict_corr counting_ops ((example_processed ''DCCAE'' True)\<lparr>model := Some 3\<rparr>) example_views True =
     Inr ((example_processed ''DCCAE'' True)\<lparr>model := Some 3, cca := Some ()\<rparr>, Some [])"
  by (simp add: predict_corr_def example_processed_def example_wrapper_def init_def
      example_views_def sub_def tensor_dataset_def
      data_loader_def counting_ops_def correlations_def diag_def ncols_def Let_def)

lemma example_fields:
  "patience (example_processed meth be) = 10" "epoch_num (example_processed meth be) = 3"
  "method_name (example_processed meth be) = meth" "both_encoders (example_processed meth be) = be"
  by (simp_all add: example_processed_def example_wrapper_def init_def)

lemma example_fit_model:
  "fit_model counting_ops (example_processed ''DCCAE'' True) example_views = Inr example_fitted"
proof -
  show ?thesis
    by (simp only: fit_model_def example_setup example_fields example_loop_nat sum.case prod.case Let_def
        training_state.simps example_predict_train refl if_True simp_thms)
      (simp add: example_fitted_def)
qed

lemma example_fit:
  "fit counting_ops (example_wrapper ''DCCAE'' True) example_views [0, 1, 2, 3, 4] =
     Some (Inr example_fitted)"
  by (simp only: fit_def example_processed_eq example_fit_model option.case sum.case)

lemma example_fit_model_single:
  "fit_model counting_ops (example_processed ''DVCCA'' False) example_views = Inr example_fitted_single"
proof -
  have m: "''DVCCA'' \<noteq> ''DCCAE''" by simp
  show ?thesis
    by (simp only: fit_model_def example_setup example_fields example_loop_nat sum.case prod.case Let_def
        training_state.simps refl if_True if_False simp_thms m example_fitted_single_def)
qed

lemma example_fit_single:
  "fit counting_ops (example_wrapper ''DVCCA'' False) example_views [0, 1, 2, 3, 4] =
     Some (Inr example_fitted_single)"
  by (simp only: fit_def example_processed_eq example_fit_model_single option.case sum.case)

subsection \<open>What \<^verbatim>\<open>fit\<close> leaves untouched\<close>

lemma process_training_data_frame:
  assumes "process_training_data self args all_inds = Some (Inr self')"
  shows "X_mean self' = X_mean self \<and> Y_mean self' = Y_mean self"
  using assms
  by (auto simp: process_training_data_def Let_def split: list.splits sum.splits option.splits prod.splits)

lemma fit_model_frame:
  assumes "fit_model ops self args = Inr self'"
  shows "X_mean self' = X_mean self \<and> Y_mean self' = Y_mean self"
  using assms
  by (auto simp: fit_model_def Let_def split: sum.splits prod.splits if_splits
      dest!: predict_corr_frame)

lemma fit_frame:
  assumes "fit ops self args all_inds = Some (Inr self')"
  shows "X_mean self' = X_mean self \<and> Y_mean self' = Y_mean self"
proof -
  from assms obtain self1 where
    a: "process_training_data self args all_inds = Some (Inr self1)"
    and b: "fit_model ops self1 args = Inr self'"
    by (auto simp: fit_def split: option.splits sum.splits)
  from process_training_data_frame [OF a] fit_model_frame [OF b] show ?thesis by simp
qed


subsection \<open>Claims about the epoch loop\<close>

text \<open>
  Claim C3: let the epoch \<open>e\<close> be one that improves on the best validation loss, run
  while the loop has not stopped, and let the validation losses of the \<open>patience\<close> epochs
  after it not improve. Then the loop is still running after each of the epochs
  \<open>e, \<dots>, e + patience - 1\<close>; in the epoch \<open>e + patience\<close> it sets \<^verbatim>\<open>early_stop\<close> and
  loads into the live network the snapshot taken in the epoch \<open>e\<close> (the parameters of the
  network as the training of that epoch left it); and the remaining iterations up to the
  epoch budget \<open>n\<close> change nothing: no further epoch is trained.
\<close>

theorem early_stop_at_patience:
  assumes pat: "0 < pat"
    and run: "fit_loop ops pat tdl vdl e s0 = Inr s" "early_stop s = False"
    and imp: "improving ops tdl vdl s"
    and non: "\<forall>k\<in>{1..nat pat}. \<exists>s'. fit_loop ops pat tdl vdl (e + k) s0 = Inr s' \<and>
                non_improving ops tdl vdl s'"
    and budget: "e + nat pat < n"
  shows "\<exists>s1 sp m sf.
           fit_loop ops pat tdl vdl (e + 1) s0 = Inr s1 \<and>
           trained ops tdl vdl s = Some (live_model s1) \<and>
           best_model s1 = state_dict ops (live_model s1) \<and>
           (\<forall>k<nat pat. \<exists>s'. fit_loop ops pat tdl vdl (e + 1 + k) s0 = Inr s' \<and> early_stop s' = False) \<and>
           fit_loop ops pat tdl vdl (e + nat pat) s0 = Inr sp \<and>
           trained ops tdl vdl sp = Some m \<and>
           fit_loop ops pat tdl vdl (e + nat pat + 1) s0 = Inr sf \<and>
           early_stop sf = True \<and>
           live_model sf = load_state_dict ops m (best_model s1) \<and>
           fit_loop ops pat tdl vdl n s0 = Inr sf"
proof -
  from epoch_body_improving [OF run(2) imp, of pat] obtain s1 where
    b1: "epoch_body ops pat tdl vdl s = Inr s1" "early_stop s1 = False"
      "epochs_no_improve s1 = 0" "trained ops tdl vdl s = Some (live_model s1)"
      "best_model s1 = state_dict ops (live_model s1)"
    by blast
  have l1: "fit_loop ops pat tdl vdl (e + 1) s0 = Inr s1"
    using fit_loop_Suc_end [of ops pat tdl vdl e s0] run(1) b1(1) by simp
  note inv = non_improving_run [OF pat l1 b1(2) b1(3) non]
  have running: "\<forall>k<nat pat. \<exists>s'. fit_loop ops pat tdl vdl (e + 1 + k) s0 = Inr s' \<and> early_stop s' = False"
    using inv by blast
  have "nat pat - 1 < nat pat" using pat by simp
  from inv [OF this] obtain sp where
    sp: "fit_loop ops pat tdl vdl (e + 1 + (nat pat - 1)) s0 = Inr sp"
      "epochs_no_improve sp = int (nat pat - 1)" "best_model sp = best_model s1"
      "early_stop sp = False"
    by blast
  have idx: "e + 1 + (nat pat - 1) = e + nat pat" using pat by simp
  have lp: "fit_loop ops pat tdl vdl (e + nat pat) s0 = Inr sp" using sp(1) by (simp only: idx)
  have "nat pat \<in> {1..nat pat}" using pat by simp
  with non obtain s' where "fit_loop ops pat tdl vdl (e + nat pat) s0 = Inr s'"
      "non_improving ops tdl vdl s'" by blast
  with lp have ni: "non_improving ops tdl vdl sp" by simp
  have cnt: "epochs_no_improve sp + 1 = pat" using sp(2) pat by simp
  from epoch_body_non_improving [OF sp(4) ni, of pat] cnt obtain sf m where
    bf: "epoch_body ops pat tdl vdl sp = Inr sf" "trained ops tdl vdl sp = Some m"
      "early_stop sf = True" "live_model sf = load_state_dict ops m (best_model sp)"
    by auto
  have lf: "fit_loop ops pat tdl vdl (e + nat pat + 1) s0 = Inr sf"
    using fit_loop_Suc_end [of ops pat tdl vdl "e + nat pat" s0] lp bf(1) by simp
  have "fit_loop ops pat tdl vdl ((e + nat pat + 1) + (n - (e + nat pat + 1))) s0
          = fit_loop ops pat tdl vdl (n - (e + nat pat + 1)) sf"
    by (rule fit_loop_add [OF lf])
  moreover have "(e + nat pat + 1) + (n - (e + nat pat + 1)) = n" using budget by simp
  ultimately have ln: "fit_loop ops pat tdl vdl n s0 = Inr sf"
    using fit_loop_stopped [of sf ops pat tdl vdl] bf(3) by simp
  show ?thesis
    using l1 b1(4) b1(5) running lp bf(2) lf bf(3) bf(4) sp(3) ln by auto
qed


theorem early_stop_at_patience_witness:
  "(0::int) < 2 \<and>
   fit_loop counting_ops 2 [[[[0]], [[0]]]] [[[[0]], [[0]]]] 0
     (start_state counting_ops (init 2 5 16 ''DCCAE'' True False 2 :: (nat, unit) wrapper) 0)
     = Inr (start_state counting_ops (init 2 5 16 ''DCCAE'' True False 2 :: (nat, unit) wrapper) 0) \<and>
   (\<exists>s1 sp m sf.
      fit_loop counting_ops 2 [[[[0]], [[0]]]] [[[[0]], [[0]]]] (0 + 1)
        (start_state counting_ops (init 2 5 16 ''DCCAE'' True False 2 :: (nat, unit) wrapper) 0) = Inr s1 \<and>
      best_model s1 = state_dict counting_ops (live_model s1) \<and>
      fit_loop counting_ops 2 [[[[0]], [[0]]]] [[[[0]], [[0]]]] (0 + nat 2 + 1)
        (start_state counting_ops (init 2 5 16 ''DCCAE'' True False 2 :: (nat, unit) wrapper) 0) = Inr sf \<and>
      early_stop sf = True \<and>
      live_model sf = load_state_dict counting_ops m (best_model s1) \<and>
      fit_loop counting_ops 2 [[[[0]], [[0]]]] [[[[0]], [[0]]]] 5
        (start_state counting_ops (init 2 5 16 ''DCCAE'' True False 2 :: (nat, unit) wrapper) 0) = Inr sf)"
proof -
  define s0 :: "(nat, nat) training_state"
    where "s0 = start_state counting_ops (init 2 5 16 ''DCCAE'' True False 2 :: (nat, unit) wrapper) 0"
  define dl :: "matrix list list" where "dl = [[[[0]], [[0]]]]"
  have pat: "(0::int) < 2" by simp
  have r0: "fit_loop counting_ops 2 dl dl 0 s0 = Inr s0" by simp
  have ns: "early_stop s0 = False" by (simp add: s0_def start_state_def)
  have imp: "improving counting_ops dl dl s0" by (simp add: s0_def dl_def run_defs)
  have l1: "fit_loop counting_ops 2 dl dl (0 + 1) s0 =
      Inr \<lparr>live_model = 1, best_model = 1, min_val_loss = 1, epochs_no_improve = 0,
           early_stop = False, all_train_loss = [1], all_val_loss = [1]\<rparr>"
    by (simp add: s0_def dl_def run_defs)
  have l2: "fit_loop counting_ops 2 dl dl (0 + 2) s0 =
      Inr \<lparr>live_model = 2, best_model = 1, min_val_loss = 1, epochs_no_improve = 1,
           early_stop = False, all_train_loss = [1, 1], all_val_loss = [1, 2]\<rparr>"
    by (simp add: s0_def dl_def run_defs numeral_2_eq_2)
  have non: "\<forall>k\<in>{1..nat 2}. \<exists>s'. fit_loop counting_ops 2 dl dl (0 + k) s0 = Inr s' \<and>
                non_improving counting_ops dl dl s'"
  proof
    fix k :: nat assume "k \<in> {1..nat 2}"
    then have "k = 1 \<or> k = 2" by auto
    then show "\<exists>s'. fit_loop counting_ops 2 dl dl (0 + k) s0 = Inr s' \<and>
                non_improving counting_ops dl dl s'"
    proof
      assume "k = 1"
      then show ?thesis using l1 by (simp add: dl_def run_defs)
    next
      assume "k = 2"
      then show ?thesis using l2 by (simp only: dl_def) (simp add: run_defs)
    qed
  qed
  have budget: "0 + nat 2 < (5::nat)" by simp
  from early_stop_at_patience [OF pat r0 ns imp non budget]
  show ?thesis using pat r0 unfolding s0_def dl_def by blast
qed

text \<open>
  Claim C4: when the epoch budget is used up and the loop has not stopped early, the
  network that \<^verbatim>\<open>fit\<close> leaves in the wrapper is the one that the training of the last
  epoch produced. The best snapshot is loaded only in the branch that sets
  \<^verbatim>\<open>early_stop\<close>.
\<close>

theorem converged_keeps_last_epoch:
  assumes "fit_setup ops self = Inr (tdl, vdl, m0)"
    and "nat (epoch_num self) = Suc n"
    and "fit_loop ops (patience self) tdl vdl (Suc n) (start_state ops self m0) = Inr sf"
    and "early_stop sf = False"
    and "fit_model ops self args = Inr self'"
  shows "\<exists>s. fit_loop ops (patience self) tdl vdl n (start_state ops self m0) = Inr s \<and>
             early_stop s = False \<and>
             trained ops tdl vdl s = Some (live_model sf) \<and>
             model self' = Some (live_model sf)"
proof -
  from live_model_of_last_epoch [OF assms(3) assms(4)] obtain s where
    s: "fit_loop ops (patience self) tdl vdl n (start_state ops self m0) = Inr s"
      "early_stop s = False" "trained ops tdl vdl s = Some (live_model sf)"
    by blast
  have "fit_loop ops (patience self) tdl vdl (nat (epoch_num self)) (start_state ops self m0) = Inr sf"
    using assms(3) by (simp only: assms(2))
  from fit_model_live_model [OF assms(1) this assms(5)] s show ?thesis by blast
qed

theorem converged_keeps_last_epoch_witness:
  "fit_setup counting_ops (example_processed ''DCCAE'' True) =
     Inr ([[[[-2], [-2], [-2], [-2]], [[-1], [-1], [-1], [-1]]]], [[[[8]], [[4]]]], 0) \<and>
   fit_model counting_ops (example_processed ''DCCAE'' True) example_views = Inr example_fitted \<and>
   (\<exists>s. fit_loop counting_ops (patience (example_processed ''DCCAE'' True))
           [[[[-2], [-2], [-2], [-2]], [[-1], [-1], [-1], [-1]]]] [[[[8]], [[4]]]] 2
           (start_state counting_ops (example_processed ''DCCAE'' True) 0) = Inr s \<and>
        early_stop s = False \<and>
        trained counting_ops [[[[-2], [-2], [-2], [-2]], [[-1], [-1], [-1], [-1]]]] [[[[8]], [[4]]]] s = Some 3 \<and>
        model example_fitted = Some 3)"
proof -
  let ?w = "example_processed ''DCCAE'' True"
  let ?sf = "\<lparr>live_model = 3::nat, best_model = 1::nat, min_val_loss = 1, epochs_no_improve = 2,
        early_stop = False, all_train_loss = [1, 1, 1], all_val_loss = [1, 2, 3]\<rparr>"
  have a: "fit_setup counting_ops ?w =
     Inr ([[[[-2], [-2], [-2], [-2]], [[-1], [-1], [-1], [-1]]]], [[[[8]], [[4]]]], 0)"
    by (rule example_setup) simp
  have b: "nat (epoch_num ?w) = Suc 2" by (simp add: example_fields)
  have c: "fit_loop counting_ops (patience ?w)
      [[[[-2], [-2], [-2], [-2]], [[-1], [-1], [-1], [-1]]]] [[[[8]], [[4]]]] (Suc 2)
      (start_state counting_ops ?w 0) = Inr ?sf"
    by (simp only: example_fields example_loop)
  have d: "early_stop ?sf = False" by simp
  have e: "fit_model counting_ops ?w example_views = Inr example_fitted" by (rule example_fit_model)
  from converged_keeps_last_epoch [OF a b c d e] a e show ?thesis by simp
qed


subsection \<open>Facts about \<^verbatim>\<open>predict_corr\<close>\<close>

lemma corr_batches_None:
  "corr_batches ops self loader z_x z_y = Inr None \<Longrightarrow>
   method_name self = ''DVCCA'' \<and> \<not> both_encoders self"
proof (induction loader arbitrary: z_x z_y)
  case Nil
  then show ?case by simp
next
  case (Cons batch rest)
  then show ?case
    by (auto split: list.splits option.splits if_splits prod.splits)
qed

lemma predict_corr_unfitted:
  "predict_corr ops (init ld en bs meth be priv pat) args False = Inl AttributeError"
proof (cases args)
  case Nil
  then show ?thesis by (simp add: predict_corr_def init_def)
next
  case (Cons a as)
  then show ?thesis by (simp add: predict_corr_def init_def)
qed

lemma predict_corr_args_irrelevant:
  assumes "centre_args (dataset_means self) 0 args = Inr c"
    and "centre_args (dataset_means self) 0 args' = Inr c'"
  shows "predict_corr ops self args train = predict_corr ops self args' train"
  using assms by (simp add: predict_corr_def)


subsection \<open>Claims about the transformation of new data\<close>

text \<open>
  Claim C8. The claim: after \<^verbatim>\<open>fit\<close>, \<^verbatim>\<open>transform_view\<close> with only the first view
  centres it with the stored training mean, encodes it and returns the normalised code
  with \<^verbatim>\<open>None\<close>. The code reads \<^verbatim>\<open>self.X_mean\<close>, an attribute that neither
  \<^verbatim>\<open>__init__\<close> nor \<^verbatim>\<open>fit\<close> assigns (\<^verbatim>\<open>fit\<close> stores the means in
  \<^verbatim>\<open>self.dataset_means\<close>): on every wrapper that \<^verbatim>\<open>fit\<close> returns the call raises
  \<^verbatim>\<open>AttributeError\<close> and leaves the array of the caller as it was.
\<close>

theorem transform_view_after_fit:
  assumes "fit ops (init ld en bs meth be priv pat) args all_inds = Some (Inr self')"
  shows "transform_view ops self' (Some a) None st = (Inl AttributeError, st)"
proof -
  have "X_mean self' = None" using fit_frame [OF assms] by (simp add: init_def)
  then show ?thesis by (simp add: transform_view_def isub_view_def)
qed

theorem transform_view_after_fit_witness:
  "fit counting_ops (init 2 3 16 ''DCCAE'' True False 10) example_views [0, 1, 2, 3, 4]
     = Some (Inr example_fitted) \<and>
   transform_view counting_ops example_fitted (Some 0) None (\<lambda>a. [[1], [2]])
     = (Inl AttributeError, \<lambda>a. [[1], [2]])"
proof -
  have f: "fit counting_ops (init 2 3 16 ''DCCAE'' True False 10) example_views [0, 1, 2, 3, 4]
     = Some (Inr example_fitted)"
    using example_fit by (simp only: example_wrapper_def)
  from transform_view_after_fit [OF f] f show ?thesis by simp
qed

text \<open>
  Claim C10. The claim: \<^verbatim>\<open>transform_view\<close> and \<^verbatim>\<open>recon_loss\<close> subtract the stored mean
  from the array object of the caller, so that the array holds centred values after the
  call, and \<^verbatim>\<open>predict_view\<close> returns that centred array for a supplied view. The code
  writes the subtraction in place (\<^verbatim>\<open>X_new -= self.X_mean\<close>), but the right-hand side
  reads an attribute that no method assigns: on every wrapper that \<^verbatim>\<open>fit\<close> returns,
  each of the three methods raises \<^verbatim>\<open>AttributeError\<close> when a view is supplied, before
  anything is subtracted, and the store of the caller is as it was.
\<close>

theorem supplied_arrays_untouched_after_fit:
  assumes "fit ops (init ld en bs meth be priv pat) args all_inds = Some (Inr self')"
  shows "transform_view ops self' (Some a) Y_new st = (Inl AttributeError, st) \<and>
         transform_view ops self' None (Some b) st = (Inl AttributeError, st) \<and>
         recon_loss ops self' a b st = (Inl AttributeError, st) \<and>
         predict_view ops self' (Some a) Y_new st = (Inl AttributeError, st) \<and>
         predict_view ops self' None (Some b) st = (Inl AttributeError, st)"
proof -
  have x: "X_mean self' = None" and y: "Y_mean self' = None"
    using fit_frame [OF assms] by (simp_all add: init_def)
  have t1: "transform_view ops self' (Some a) Y_new st = (Inl AttributeError, st)"
    by (simp add: transform_view_def isub_view_def x)
  have t2: "transform_view ops self' None (Some b) st = (Inl AttributeError, st)"
    by (simp add: transform_view_def isub_view_def y)
  have r: "recon_loss ops self' a b st = (Inl AttributeError, st)"
    by (simp add: recon_loss_def isub_view_def x)
  have p1: "predict_view ops self' (Some a) Y_new st = (Inl AttributeError, st)"
    by (simp add: predict_view_def t1)
  have p2: "predict_view ops self' None (Some b) st = (Inl AttributeError, st)"
    by (simp add: predict_view_def t2)
  from t1 t2 r p1 p2 show ?thesis by simp
qed

theorem supplied_arrays_untouched_after_fit_witness:
  "fit counting_ops (init 2 3 16 ''DCCAE'' True False 10) example_views [0, 1, 2, 3, 4]
     = Some (Inr example_fitted) \<and>
   transform_view counting_ops example_fitted (Some 0) (Some 1) (\<lambda>a. [[3, 30], [5, 50]])
     = (Inl AttributeError, \<lambda>a. [[3, 30], [5, 50]]) \<and>
   transform_view counting_ops example_fitted None (Some 1) (\<lambda>a. [[3, 30], [5, 50]])
     = (Inl AttributeError, \<lambda>a. [[3, 30], [5, 50]]) \<and>
   recon_loss counting_ops example_fitted 0 1 (\<lambda>a. [[3, 30], [5, 50]])
     = (Inl AttributeError, \<lambda>a. [[3, 30], [5, 50]]) \<and>
   predict_view counting_ops example_fitted (Some 0) (Some 1) (\<lambda>a. [[3, 30], [5, 50]])
     = (Inl AttributeError, \<lambda>a. [[3, 30], [5, 50]]) \<and>
   predict_view counting_ops example_fitted None (Some 1) (\<lambda>a. [[3, 30], [5, 50]])
     = (Inl AttributeError, \<lambda>a. [[3, 30], [5, 50]])"
proof -
  have f: "fit counting_ops (init 2 3 16 ''DCCAE'' True False 10) example_views [0, 1, 2, 3, 4]
     = Some (Inr example_fitted)"
    using example_fit by (simp only: example_wrapper_def)
  note t = supplied_arrays_untouched_after_fit
    [where a = 0 and b = 1 and Y_new = "Some 1" and st = "\<lambda>a. [[3, 30], [5, 50]]", OF f]
  from f t show ?thesis by (intro conjI) (elim conjE, assumption)+
qed

subsection \<open>Claims about \<^verbatim>\<open>predict_corr\<close>\<close>

text \<open>
  Claim C2. The claim: with \<^verbatim>\<open>train=False\<close> the latent codes are computed from the
  supplied views, centred with the stored means. The code computes the centred views
  into \<^verbatim>\<open>dataset_list_test\<close> and never reads that list: the loader is built from
  \<^verbatim>\<open>self.dataset_list_train\<close>. For a wrapper holding the training data of the example
  and the supplied views \<open>[[5], [6]]\<close> and \<open>[[7], [8]]\<close>, the result is the correlation
  of the codes of the stored training rows, for every network and alignment.
\<close>

theorem predict_corr_uses_training_set:
  "predict_corr ops
     ((init 2 3 16 ''DCCAE'' True False 10)
        \<lparr> dataset_list_train := Some [[[-2], [-2], [-2], [-2]], [[-1], [-1], [-1], [-1]]],
          dataset_list_val := Some [[[8]], [[4]]],
          dataset_means := Some [[0], [1]],
          model := Some m, cca := Some c \<rparr>)
     [[[5], [6]], [[7], [8]]] False
   = (let (z_x, z_y) = latents ops m [[-2], [-2], [-2], [-2]] [[-1], [-1], [-1], [-1]];
          (view_1, view_2) = cca_transform ops c z_x z_y
      in Inr ((init 2 3 16 ''DCCAE'' True False 10)
                \<lparr> dataset_list_train := Some [[[-2], [-2], [-2], [-2]], [[-1], [-1], [-1], [-1]]],
                  dataset_list_val := Some [[[8]], [[4]]],
                  dataset_means := Some [[0], [1]],
                  model := Some m, cca := Some c \<rparr>,
              Some (correlations ops 2 view_1 view_2)))"
  by (simp add: predict_corr_def init_def sub_def tensor_dataset_def data_loader_def Let_def
      split: prod.splits)

text \<open>
  Claim C9, as stated: \<^verbatim>\<open>predict_corr\<close> with \<^verbatim>\<open>train=False\<close>, called before any fit
  of the alignment, signals an error and returns no result. For the single-encoder DVCCA
  variant \<^verbatim>\<open>fit\<close> never fits the alignment, and the call on the fitted wrapper prints
  a message and returns \<^verbatim>\<open>None\<close> without raising.
\<close>

theorem predict_corr_single_encoder:
  "fit counting_ops (init 2 3 16 ''DVCCA'' False False 10) example_views [0, 1, 2, 3, 4]
     = Some (Inr example_fitted_single) \<and>
   cca example_fitted_single = None \<and>
   predict_corr counting_ops example_fitted_single example_views False
     = Inr (example_fitted_single, None)"
proof -
  have f: "fit counting_ops (init 2 3 16 ''DVCCA'' False False 10) example_views [0, 1, 2, 3, 4]
     = Some (Inr example_fitted_single)"
    using example_fit_single by (simp only: example_wrapper_def)
  have c: "cca example_fitted_single = None"
    by (simp add: example_fitted_single_def example_processed_def example_wrapper_def init_def)
  have p: "predict_corr counting_ops example_fitted_single example_views False
     = Inr (example_fitted_single, None)"
    by (simp add: predict_corr_def example_fitted_single_def example_processed_def
        example_wrapper_def init_def example_views_def sub_def tensor_dataset_def data_loader_def Let_def)
  from f c p show ?thesis by simp
qed


text \<open>
  Claim C9, amended: on a wrapper without a fitted alignment, \<^verbatim>\<open>predict_corr\<close> with
  \<^verbatim>\<open>train=False\<close> never returns correlations. It raises, except for the single-encoder
  DVCCA variant, where it returns \<^verbatim>\<open>None\<close>; on a wrapper that was never fitted it
  raises \<^verbatim>\<open>AttributeError\<close>.
\<close>

theorem predict_corr_before_alignment:
  "(cca self = None \<longrightarrow>
      (\<exists>e. predict_corr ops self args False = Inl e) \<or>
      (method_name self = ''DVCCA'' \<and> \<not> both_encoders self \<and>
       predict_corr ops self args False = Inr (self, None))) \<and>
   predict_corr ops (init ld en bs meth be priv pat) args False = Inl AttributeError"
proof (intro conjI impI)
  assume c: "cca self = None"
  show "(\<exists>e. predict_corr ops self args False = Inl e) \<or>
      (method_name self = ''DVCCA'' \<and> \<not> both_encoders self \<and>
       predict_corr ops self args False = Inr (self, None))"
  proof (cases "predict_corr ops self args False")
    case (Inl e)
    then show ?thesis by simp
  next
    case (Inr r)
    with c obtain loader where
      "corr_batches ops self loader [] [] = Inr None" and "r = (self, None)"
      by (auto simp: predict_corr_def Let_def split: sum.splits option.splits if_splits prod.splits)
    with corr_batches_None [of ops self loader "[]" "[]"] Inr show ?thesis by simp
  qed
next
  show "predict_corr ops (init ld en bs meth be priv pat) args False = Inl AttributeError"
    by (rule predict_corr_unfitted)
qed


theorem predict_corr_before_alignment_witness:
  "cca (init 2 3 16 ''DCCAE'' True False 10 :: (nat, unit) wrapper) = None \<and>
   predict_corr counting_ops (init 2 3 16 ''DCCAE'' True False 10) example_views False
     = Inl AttributeError"
proof -
  have c: "cca (init 2 3 16 ''DCCAE'' True False 10 :: (nat, unit) wrapper) = None"
    by (simp add: init_def)
  from predict_corr_before_alignment
    [of "init 2 3 16 ''DCCAE'' True False 10" counting_ops example_views 2 3 16 "''DCCAE''" True False 10]
    c show ?thesis by blast
qed


end
